theory Spec2Isabelle
  imports Main
begin

section \<open>Exceptions and calendar dates\<close>

text \<open>
  The bot is one Python module, \<^verbatim>\<open>bot.py\<close>. Exceptions are modelled by their class: a
  computation that may raise has a result of type \<open>error + 'a\<close>, with \<open>Inl\<close> the exception.
\<close>

datatype error = ValueError | TypeError | KeyError | IndexError | OverflowError | GSpreadException

text \<open>
  A \<^verbatim>\<open>datetime.date\<close> is represented by its proleptic Gregorian ordinal, the number
  \<^verbatim>\<open>date.toordinal()\<close> returns: 0001-01-01 is day 1 and 9999-12-31 is day 3652059.
  CPython defines date comparison, \<^verbatim>\<open>weekday()\<close> and the arithmetic with
  \<^verbatim>\<open>timedelta\<close> through this number, so \<open>\<le>\<close> on ordinals is the order of dates.
\<close>

type_synonym date = int

definition MAXORDINAL :: int where
  "MAXORDINAL = 3652059"

definition valid_date :: "date \<Rightarrow> bool" where
  "valid_date D = (1 \<le> D \<and> D \<le> MAXORDINAL)"

definition weekday :: "date \<Rightarrow> int" where
  \<comment> \<open>\<^verbatim>\<open>date.weekday()\<close>: \<^verbatim>\<open>(self.toordinal() + 6) % 7\<close>, Monday is 0 and Sunday is 6.\<close>
  "weekday D = (D + 6) mod 7"

definition date_add :: "date \<Rightarrow> int \<Rightarrow> error + date" where
  \<comment> \<open>\<^verbatim>\<open>date + timedelta(days=n)\<close>: the sum of the ordinals, and OverflowError
      (``date value out of range'') when it leaves the range of the type.\<close>
  "date_add D n = (let o' = D + n in if 0 < o' \<and> o' \<le> MAXORDINAL then Inr o' else Inl OverflowError)"

definition date_sub :: "date \<Rightarrow> int \<Rightarrow> error + date" where
  \<comment> \<open>\<^verbatim>\<open>date - timedelta(days=n)\<close> is \<^verbatim>\<open>date + timedelta(-n)\<close>.\<close>
  "date_sub D n = date_add D (- n)"

text \<open>
  The constructor \<^verbatim>\<open>datetime.date(year, month, day)\<close> checks its fields and raises
  ValueError for a year outside 1..9999, a month outside 1..12 or a day the month does not have.
\<close>

definition is_leap :: "int \<Rightarrow> bool" where
  "is_leap year = (year mod 4 = 0 \<and> (year mod 100 \<noteq> 0 \<or> year mod 400 = 0))"

definition days_before_year :: "int \<Rightarrow> int" where
  "days_before_year year = (let y = year - 1 in y * 365 + y div 4 - y div 100 + y div 400)"

definition days_in_month :: "int \<Rightarrow> int \<Rightarrow> int" where
  "days_in_month year month =
     (if month = 2 \<and> is_leap year then 29
      else [31, 28, 31, 30, 31, 30, 31, 31, 30, 31, 30, 31] ! nat (month - 1))"

definition days_before_month :: "int \<Rightarrow> int \<Rightarrow> int" where
  "days_before_month year month =
     [0, 31, 59, 90, 120, 151, 181, 212, 243, 273, 304, 334] ! nat (month - 1)
       + (if month > 2 \<and> is_leap year then 1 else 0)"

definition date_new :: "int \<Rightarrow> int \<Rightarrow> int \<Rightarrow> error + date" where
  "date_new year month day =
     (if \<not> (1 \<le> year \<and> year \<le> 9999) then Inl ValueError
      else if \<not> (1 \<le> month \<and> month \<le> 12) then Inl ValueError
      else if \<not> (1 \<le> day \<and> day \<le> days_in_month year month) then Inl ValueError
      else Inr (days_before_year year + days_before_month year month + day))"

section \<open>Week Range Calculator\<close>

text \<open>
  \<^verbatim>\<open>
  def get_week_range(date):
      start = date - datetime.timedelta(days=date.weekday())  # Monday
      end = start + datetime.timedelta(days=6)                # Sunday
      return start, end
  \<close>
\<close>

definition get_week_range :: "date \<Rightarrow> error + (date \<times> date)" where
  "get_week_range D =
     (case date_sub D (weekday D) of
        Inl e \<Rightarrow> Inl e
      | Inr start \<Rightarrow>
          (case date_add start 6 of
             Inl e \<Rightarrow> Inl e
           | Inr end' \<Rightarrow> Inr (start, end')))"

section \<open>Date Parser\<close>

text \<open>
  Values read from the spreadsheet arrive as Python \<^verbatim>\<open>str\<close>, \<^verbatim>\<open>int\<close> or
  \<^verbatim>\<open>float\<close> objects (the client library turns numeric-looking cells into numbers).
  The type \<open>'f\<close> stands for Python's \<^verbatim>\<open>float\<close>. Strings are lists of characters with
  code points below 256.
\<close>

datatype 'f cell = PyStr string | PyInt int | PyFloat 'f

text \<open>
  \<^verbatim>\<open>datetime.datetime.strptime(date_str, fmt)\<close> compiles the format into a regular
  expression, one named group per directive, matches it at the start of the text with
  \<^verbatim>\<open>re.match\<close> and rejects text that the match leaves unconsumed. The groups of the three
  directives the bot uses are, in CPython's \<^verbatim>\<open>_strptime.TimeRE\<close>:
  \<^verbatim>\<open>
  %Y  (?P<Y>\d\d\d\d)
  %m  (?P<m>1[0-2]|0[1-9]|[1-9])
  %d  (?P<d>3[0-1]|[1-2]\d|0[1-9]|[1-9]| [1-9])
  \<close>
  A group is a list of alternatives tried from left to right, an alternative a list of
  character classes. Every other character of the three formats of the bot stands for
  itself.
\<close>

datatype atom = OneOf string

datatype item = Group char "atom list list" | Lit char

definition digit :: atom where
  "digit = OneOf ''0123456789''"

definition nonzero :: atom where
  "nonzero = OneOf ''123456789''"

definition directive :: "char \<Rightarrow> atom list list" where
  "directive c =
     (if c = CHR ''Y'' then [[digit, digit, digit, digit]]
      else if c = CHR ''m'' then [[OneOf ''1'', OneOf ''012''], [OneOf ''0'', nonzero], [nonzero]]
      else if c = CHR ''d'' then
        [[OneOf ''3'', OneOf ''01''], [OneOf ''12'', digit], [OneOf ''0'', nonzero], [nonzero],
         [OneOf '' '', nonzero]]
      else [])"

fun pattern :: "string \<Rightarrow> item list" where
  "pattern [] = []"
| "pattern [c] = [Lit c]"
| "pattern (c # d # format) =
     (if c = CHR ''%'' then Group d (directive d) # pattern format
      else Lit c # pattern (d # format))"

fun match_alt :: "atom list \<Rightarrow> string \<Rightarrow> (string \<times> string) option" where
  "match_alt [] s = Some ([], s)"
| "match_alt (OneOf cs # as) [] = None"
| "match_alt (OneOf cs # as) (c # s) =
     (if c \<in> set cs
      then (case match_alt as s of None \<Rightarrow> None | Some (m, r) \<Rightarrow> Some (c # m, r))
      else None)"

text \<open>
  \<open>re_match\<close> is the backtracking search of \<^verbatim>\<open>re.match\<close>: the first alternative of a
  group after which the rest of the expression matches wins. It returns the text of every
  group and the text left after the match.
\<close>

fun re_match :: "item list \<Rightarrow> string \<Rightarrow> ((char \<times> string) list \<times> string) option"
  and try_alts :: "char \<Rightarrow> atom list list \<Rightarrow> item list \<Rightarrow> string \<Rightarrow>
        ((char \<times> string) list \<times> string) option" where
  "re_match [] s = Some ([], s)"
| "re_match (Lit c # items) [] = None"
| "re_match (Lit c # items) (c' # s) = (if c' = c then re_match items s else None)"
| "re_match (Group g alts # items) s = try_alts g alts items s"
| "try_alts g [] items s = None"
| "try_alts g (a # alts) items s =
     (case match_alt a s of
        None \<Rightarrow> try_alts g alts items s
      | Some (m, r) \<Rightarrow>
          (case re_match items r of
             None \<Rightarrow> try_alts g alts items s
           | Some (found, rest) \<Rightarrow> Some ((g, m) # found, rest)))"

definition py_int :: "string \<Rightarrow> int" where
  \<comment> \<open>\<^verbatim>\<open>int(s)\<close> on the text of a group: decimal digits after optional blanks.\<close>
  "py_int s = foldl (\<lambda>n c. 10 * n + (int (of_char c) - 48)) 0 (dropWhile (\<lambda>c. c = CHR '' '') s)"

definition group_int :: "(char \<times> string) list \<Rightarrow> char \<Rightarrow> int \<Rightarrow> int" where
  \<comment> \<open>the value of a group, or the default of a directive the format does not have\<close>
  "group_int found g dflt = (case map_of found g of None \<Rightarrow> dflt | Some s \<Rightarrow> py_int s)"

definition strptime_date :: "'f cell \<Rightarrow> string \<Rightarrow> error + date" where
  \<comment> \<open>\<^verbatim>\<open>datetime.datetime.strptime(date_string, format).date()\<close>\<close>
  "strptime_date date_string format =
     (case date_string of
        PyStr s \<Rightarrow>
          (case re_match (pattern format) s of
             None \<Rightarrow> Inl ValueError
           | Some (found, rest) \<Rightarrow>
               if rest \<noteq> [] then Inl ValueError
               else date_new (group_int found (CHR ''Y'') 1900) (group_int found (CHR ''m'') 1)
                      (group_int found (CHR ''d'') 1))
      | PyInt i \<Rightarrow> Inl TypeError
      | PyFloat x \<Rightarrow> Inl TypeError)"

text \<open>
  \<^verbatim>\<open>
  def safe_parse_date(date_str):
      for fmt in ("%Y-%m-%d", "%d/%m/%Y", "%m/%d/%Y"):
          try:
              return datetime.datetime.strptime(date_str, fmt).date()
          except Exception:
              continue
      raise ValueError(f"Unrecognized date format: {date_str}")
  \<close>
\<close>

fun try_formats :: "'f cell \<Rightarrow> string list \<Rightarrow> error + date" where
  "try_formats date_str [] = Inl ValueError"
| "try_formats date_str (fmt # fmts) =
     (case strptime_date date_str fmt of
        Inr d \<Rightarrow> Inr d
      | Inl e \<Rightarrow> try_formats date_str fmts)"

definition safe_parse_date :: "'f cell \<Rightarrow> error + date" where
  "safe_parse_date date_str = try_formats date_str [''%Y-%m-%d'', ''%d/%m/%Y'', ''%m/%d/%Y'']"

section \<open>Summary Aggregator\<close>

text \<open>
  Amounts are Python floats. Nothing is assumed about floating-point arithmetic: the type
  \<open>'f\<close> of floats is a parameter with an addition, a subtraction and a zero that obey no
  law, and the conversions of \<^verbatim>\<open>float(x)\<close> are parameters too, \<open>None\<close> where the
  conversion raises (OverflowError for an integer too large, ValueError for text that is
  not a number). The integer \<^verbatim>\<open>0\<close> the totals start from is the zero of \<open>'f\<close>:
  Python converts it to a float at the first addition, and a total to which nothing is
  added stays the integer \<^verbatim>\<open>0\<close>, which Python compares equal to the float zero.
\<close>

record 'f float_lib =
  float_of_int :: "int \<Rightarrow> 'f option"
  float_of_str :: "string \<Rightarrow> 'f option"

definition py_float :: "'f float_lib \<Rightarrow> 'f cell \<Rightarrow> error + 'f" where
  "py_float F v =
     (case v of
        PyFloat x \<Rightarrow> Inr x
      | PyInt i \<Rightarrow> (case float_of_int F i of None \<Rightarrow> Inl OverflowError | Some x \<Rightarrow> Inr x)
      | PyStr s \<Rightarrow> (case float_of_str F s of None \<Rightarrow> Inl ValueError | Some x \<Rightarrow> Inr x))"

text \<open>
  A row of \<^verbatim>\<open>get_all_records()\<close> is a dict from the column names of the sheet to the
  values of the row.
\<close>

type_synonym 'f row = "string \<rightharpoonup> 'f cell"

definition dict_get :: "'f row \<Rightarrow> string \<Rightarrow> error + 'f cell" where
  "dict_get row k = (case row k of None \<Rightarrow> Inl KeyError | Some v \<Rightarrow> Inr v)"

datatype 'f log_entry = Skipping string "'f row" error | Error string error

text \<open>
  The body of the \<^verbatim>\<open>try\<close> of one loop iteration:
  \<^verbatim>\<open>
  row_date = safe_parse_date(row['Date'])
  if week_start <= row_date <= week_end:
      total_earnings += float(row['Amount'])
  \<close>
  Its result is the exception it raises, or the amount to add, if any.
\<close>

definition row_amount :: "'f float_lib \<Rightarrow> date \<Rightarrow> date \<Rightarrow> 'f row \<Rightarrow> error + 'f option" where
  "row_amount F week_start week_end row =
     (case dict_get row ''Date'' of
        Inl e \<Rightarrow> Inl e
      | Inr date_str \<Rightarrow>
          (case safe_parse_date date_str of
             Inl e \<Rightarrow> Inl e
           | Inr row_date \<Rightarrow>
               if week_start \<le> row_date \<and> row_date \<le> week_end
               then (case dict_get row ''Amount'' of
                       Inl e \<Rightarrow> Inl e
                     | Inr a \<Rightarrow> (case py_float F a of Inl e \<Rightarrow> Inl e | Inr x \<Rightarrow> Inr (Some x)))
               else Inr None))"

text \<open>
  The \<^verbatim>\<open>for\<close> loop over one row-set, with the running total and the log as its state;
  \<^verbatim>\<open>except Exception\<close> logs the row and goes on to the next.
\<close>

fun sum_rows :: "'f::plus float_lib \<Rightarrow> string \<Rightarrow> date \<Rightarrow> date \<Rightarrow> 'f row list \<Rightarrow>
    'f \<times> 'f log_entry list \<Rightarrow> 'f \<times> 'f log_entry list" where
  "sum_rows F label week_start week_end [] st = st"
| "sum_rows F label week_start week_end (row # rows) (running, logs) =
     (case row_amount F week_start week_end row of
        Inr (Some x) \<Rightarrow> sum_rows F label week_start week_end rows (running + x, logs)
      | Inr None \<Rightarrow> sum_rows F label week_start week_end rows (running, logs)
      | Inl e \<Rightarrow> sum_rows F label week_start week_end rows (running, logs @ [Skipping label row e]))"

text \<open>
  \<^verbatim>\<open>calculate_summary(week_start, week_end)\<close>, from the point where the two reads of the
  sheets have returned \<open>earnings_data\<close> and \<open>expenses_data\<close>. It returns the triple of the
  source and the log entries it wrote.
\<close>

definition calculate_summary :: "'f::{zero,plus,minus} float_lib \<Rightarrow> date \<Rightarrow> date \<Rightarrow>
    'f row list \<Rightarrow> 'f row list \<Rightarrow> ('f \<times> 'f \<times> 'f) \<times> 'f log_entry list" where
  "calculate_summary F week_start week_end earnings_data expenses_data =
     (case sum_rows F ''earnings'' week_start week_end earnings_data (0, []) of
        (total_earnings, log1) \<Rightarrow>
          (case sum_rows F ''expenses'' week_start week_end expenses_data (0, log1) of
             (total_expenses, log2) \<Rightarrow>
               (let balance = total_earnings - total_expenses
                in ((total_earnings, total_expenses, balance), log2))))"

definition total_earnings_of :: "('f \<times> 'f \<times> 'f) \<times> 'f log_entry list \<Rightarrow> 'f" where
  "total_earnings_of r = fst (fst r)"

definition total_expenses_of :: "('f \<times> 'f \<times> 'f) \<times> 'f log_entry list \<Rightarrow> 'f" where
  "total_expenses_of r = fst (snd (fst r))"

definition balance_of :: "('f \<times> 'f \<times> 'f) \<times> 'f log_entry list \<Rightarrow> 'f" where
  "balance_of r = snd (snd (fst r))"

section \<open>Command handler for /spend\<close>

text \<open>
  \<^verbatim>\<open>
  async def spend(update, context):
      try:
          amount = float(context.args[0])
          category = context.args[1]
          notes = " ".join(context.args[2:]) if len(context.args) > 2 else ""
          now = datetime.datetime.now()
          date = now.strftime("%Y-%m-%d")
          day = now.strftime("%A")
          expenses_sheet.append_row([date, day, category, amount, notes])
          await update.message.reply_text(f"Expense logged: ...")
      except Exception as e:
          logging.error(f"Error in /spend: {e}")
          await update.message.reply_text("Usage: /spend <amount> <category> <notes>")
  \<close>
  The expense sheet is the list of the rows appended to it. The two texts the clock gives,
  \<open>date\<close> and \<open>day\<close>, are inputs. The calls to the spreadsheet and to the chat platform
  are taken to succeed.
\<close>

definition list_get :: "'a list \<Rightarrow> nat \<Rightarrow> error + 'a" where
  "list_get xs i = (if i < length xs then Inr (xs ! i) else Inl IndexError)"

fun join :: "string \<Rightarrow> string list \<Rightarrow> string" where
  "join sep [] = []"
| "join sep [x] = x"
| "join sep (x # y # ys) = x @ sep @ join sep (y # ys)"

datatype 'f reply = ExpenseLogged 'f string string | SpendUsage

record 'f spend_result =
  expenses_sheet :: "'f cell list list"
  reply_text :: "'f reply"
  logged :: "'f log_entry list"

definition spend_try :: "'f float_lib \<Rightarrow> string list \<Rightarrow> string \<Rightarrow> string \<Rightarrow> 'f cell list list \<Rightarrow>
    error + 'f spend_result" where
  "spend_try F args date day sheet =
     (case list_get args 0 of
        Inl e \<Rightarrow> Inl e
      | Inr a \<Rightarrow>
          (case py_float F (PyStr a) of
             Inl e \<Rightarrow> Inl e
           | Inr amount \<Rightarrow>
               (case list_get args 1 of
                  Inl e \<Rightarrow> Inl e
                | Inr category \<Rightarrow>
                    (let notes = (if length args > 2 then join '' '' (drop 2 args) else [])
                     in Inr \<lparr>expenses_sheet =
                               sheet @ [[PyStr date, PyStr day, PyStr category, PyFloat amount,
                                         PyStr notes]],
                             reply_text = ExpenseLogged amount category notes,
                             logged = []\<rparr>))))"

definition spend :: "'f float_lib \<Rightarrow> string list \<Rightarrow> string \<Rightarrow> string \<Rightarrow> 'f cell list list \<Rightarrow>
    'f spend_result" where
  "spend F args date day sheet =
     (case spend_try F args date day sheet of
        Inr r \<Rightarrow> r
      | Inl e \<Rightarrow> \<lparr>expenses_sheet = sheet, reply_text = SpendUsage,
                  logged = [Error ''/spend'' e]\<rparr>)"

section \<open>Scheduled Job\<close>

text \<open>
  \<^verbatim>\<open>
  async def send_weekly_summary(app):
      try:
          today = datetime.date.today()
          last_week_end = today - datetime.timedelta(days=1)  # Sunday before today (Monday)
          week_start, week_end = get_week_range(last_week_end)
          earnings, expenses, balance = calculate_summary(week_start, week_end)
          await app.bot.send_message(chat_id=CHAT_ID, text=(...))
      except Exception as e:
          logging.error(f"Error in auto-summary: {e}")
  \<close>
  The job is registered with \<^verbatim>\<open>CronTrigger(day_of_week="mon", hour=10, minute=0)\<close>.
  The date \<open>today\<close> is an input, and so is \<open>CHAT_ID\<close>, the value of the environment
  variable. A message is the request made to the chat platform: the recipient and the
  values its text is formatted from.
\<close>

record 'f message =
  chat_id :: "string option"
  week_start :: date
  week_end :: date
  earnings :: 'f
  expenses :: 'f
  balance :: 'f

definition send_weekly_summary :: "'f::{zero,plus,minus} float_lib \<Rightarrow> string option \<Rightarrow> date \<Rightarrow>
    'f row list \<Rightarrow> 'f row list \<Rightarrow> 'f message list \<times> 'f log_entry list" where
  "send_weekly_summary F CHAT_ID today earnings_data expenses_data =
     (case date_sub today 1 of
        Inl e \<Rightarrow> ([], [Error ''auto-summary'' e])
      | Inr last_week_end \<Rightarrow>
          (case get_week_range last_week_end of
             Inl e \<Rightarrow> ([], [Error ''auto-summary'' e])
           | Inr (ws, we) \<Rightarrow>
               (case calculate_summary F ws we earnings_data expenses_data of
                  ((te, tx, b), log) \<Rightarrow>
                    ([\<lparr>chat_id = CHAT_ID, week_start = ws, week_end = we, earnings = te,
                       expenses = tx, balance = b\<rparr>], log))))"

section \<open>Configuration and startup\<close>

text \<open>
  \<^verbatim>\<open>
  TELEGRAM_TOKEN = os.getenv("TELEGRAM_TOKEN")
  SHEET_ID = os.getenv("SHEET_ID")
  GOOGLE_CREDENTIALS = os.getenv("GOOGLE_CREDENTIALS")
  CHAT_ID = os.getenv("CHAT_ID")  # your Telegram ID for auto-summary

  if not TELEGRAM_TOKEN or not SHEET_ID or not GOOGLE_CREDENTIALS:
      raise ValueError("Missing required environment variables.")
  \<close>
  The environment is a map from names to values; \<^verbatim>\<open>os.getenv\<close> returns \<^verbatim>\<open>None\<close> for
  a name that is not set, and \<^verbatim>\<open>not v\<close> holds of \<^verbatim>\<open>None\<close> and of the empty string.
  \<open>load_config\<close> is this first step of startup; \<open>startup\<close> below is the whole of it.
\<close>

record config =
  TELEGRAM_TOKEN :: "string option"
  SHEET_ID :: "string option"
  GOOGLE_CREDENTIALS :: "string option"
  CHAT_ID :: "string option"

definition py_not :: "string option \<Rightarrow> bool" where
  "py_not v = (case v of None \<Rightarrow> True | Some s \<Rightarrow> s = [])"

definition load_config :: "(string \<rightharpoonup> string) \<Rightarrow> error + config" where
  "load_config getenv =
     (let cfg = \<lparr>TELEGRAM_TOKEN = getenv ''TELEGRAM_TOKEN'', SHEET_ID = getenv ''SHEET_ID'',
                 GOOGLE_CREDENTIALS = getenv ''GOOGLE_CREDENTIALS'', CHAT_ID = getenv ''CHAT_ID''\<rparr>
      in if py_not (TELEGRAM_TOKEN cfg) \<or> py_not (SHEET_ID cfg) \<or> py_not (GOOGLE_CREDENTIALS cfg)
         then Inl ValueError
         else Inr cfg)"

text \<open>
  Startup goes on with the Google Sheets setup, still at module level, before \<^verbatim>\<open>main()\<close>
  registers a handler:
  \<^verbatim>\<open>
  try:
      creds_dict = json.loads(GOOGLE_CREDENTIALS)
      scope = [...]
      creds = ServiceAccountCredentials.from_json_keyfile_dict(creds_dict, scope)
      client = gspread.authorize(creds)
  except Exception as e:
      raise ValueError(f"Could not load Google credentials: {e}")

  expenses_sheet = client.open_by_key(SHEET_ID).worksheet("Expenses")
  earnings_sheet = client.open_by_key(SHEET_ID).worksheet("Earnings")
  \<close>
  What the Google libraries do is a parameter: \<open>authorize\<close> is the body of the
  \<^verbatim>\<open>try\<close> applied to the value of \<^verbatim>\<open>GOOGLE_CREDENTIALS\<close>, \<open>None\<close> when it raises (as
  it does on text that is not the JSON of a service-account key), and \<open>worksheet\<close> is
  \<^verbatim>\<open>client.open_by_key(key).worksheet(title)\<close>, \<open>None\<close> when it raises. An exception of
  the first becomes the ValueError of the source; one of the second is not caught.
\<close>

record ('c, 's) google =
  authorize :: "string option \<Rightarrow> 'c option"
  worksheet :: "'c \<Rightarrow> string option \<Rightarrow> string \<Rightarrow> 's option"

record 's started =
  settings :: config
  expenses_worksheet :: 's
  earnings_worksheet :: 's

definition startup :: "('c, 's) google \<Rightarrow> (string \<rightharpoonup> string) \<Rightarrow> error + 's started" where
  "startup G getenv =
     (case load_config getenv of
        Inl e \<Rightarrow> Inl e
      | Inr cfg \<Rightarrow>
          (case authorize G (GOOGLE_CREDENTIALS cfg) of
             None \<Rightarrow> Inl ValueError
           | Some client \<Rightarrow>
               (case worksheet G client (SHEET_ID cfg) ''Expenses'' of
                  None \<Rightarrow> Inl GSpreadException
                | Some expenses_ws \<Rightarrow>
                    (case worksheet G client (SHEET_ID cfg) ''Earnings'' of
                       None \<Rightarrow> Inl GSpreadException
                     | Some earnings_ws \<Rightarrow>
                         Inr \<lparr>settings = cfg, expenses_worksheet = expenses_ws,
                              earnings_worksheet = earnings_ws\<rparr>))))"

text \<open>
  An instance for evaluation: \<open>example_key\<close> stands for the JSON text of a service-account
  key that the Google libraries accept (the model does not look into it), and
  \<open>example_google\<close> is a Google service that accepts this key and no other text, and in
  which every spreadsheet has the two worksheets.
\<close>

definition example_key :: string where
  "example_key = ''service-account-key''"

definition example_google :: "(string, string \<times> string) google" where
  "example_google =
     \<lparr>authorize = (\<lambda>cred. if cred = Some example_key then Some ''client'' else None),
      worksheet = (\<lambda>client key title. case key of None \<Rightarrow> None | Some k \<Rightarrow> Some (k, title))\<rparr>"

section \<open>An instance of the float parameters for evaluation\<close>

text \<open>
  To evaluate the functions on examples, \<open>whole_amounts\<close> instantiates the floats with the
  integers: \<^verbatim>\<open>float\<close> accepts every integer and the texts made of decimal digits only.
  On whole numbers below \<open>2^53\<close> the arithmetic of Python's floats is exact, so on the
  examples below this instance computes what the bot computes.
\<close>

definition whole_amounts :: "int float_lib" where
  "whole_amounts =
     \<lparr>float_of_int = (\<lambda>i. Some i),
      float_of_str = (\<lambda>s. if s \<noteq> [] \<and> list_all (\<lambda>c. c \<in> set ''0123456789'') s
                          then Some (py_int s) else None)\<rparr>"

section \<open>The words of the specification\<close>

text \<open>
  The specification speaks of the parsed date of a row, of its amount, of rows whose date
  lies inside a week span and of malformed rows. These definitions follow its words; the
  theorems below compare them with the functions of the source.
\<close>

definition parsed_date :: "'f row \<Rightarrow> date option" where
  "parsed_date row =
     (case row ''Date'' of
        None \<Rightarrow> None
      | Some date_str \<Rightarrow> (case safe_parse_date date_str of Inl e \<Rightarrow> None | Inr d \<Rightarrow> Some d))"

definition parsed_amount :: "'f float_lib \<Rightarrow> 'f row \<Rightarrow> 'f option" where
  "parsed_amount F row =
     (case row ''Amount'' of
        None \<Rightarrow> None
      | Some a \<Rightarrow> (case py_float F a of Inl e \<Rightarrow> None | Inr x \<Rightarrow> Some x))"

definition in_span :: "date \<Rightarrow> date \<Rightarrow> 'f row \<Rightarrow> bool" where
  \<comment> \<open>the parsed date of the row lies inside the span, both ends included\<close>
  "in_span start end' row =
     (case parsed_date row of None \<Rightarrow> False | Some d \<Rightarrow> start \<le> d \<and> d \<le> end')"

definition span_amounts :: "'f float_lib \<Rightarrow> date \<Rightarrow> date \<Rightarrow> 'f row list \<Rightarrow> 'f list" where
  \<comment> \<open>the amounts of the rows inside the span, in the order of the rows\<close>
  "span_amounts F start end' rows = List.map_filter (parsed_amount F) (filter (in_span start end') rows)"

definition malformed :: "'f float_lib \<Rightarrow> 'f row \<Rightarrow> bool" where
  \<comment> \<open>the date of the row fails to parse, or its amount is not a valid number\<close>
  "malformed F row = (parsed_date row = None \<or> parsed_amount F row = None)"

section \<open>Example rows\<close>

definition example_row :: "string \<Rightarrow> int cell \<Rightarrow> int row" where
  "example_row date_str amount = [''Date'' \<mapsto> PyStr date_str, ''Amount'' \<mapsto> amount]"

definition example_rows :: "int row list" where
  \<comment> \<open>the Sunday before the week of 2024-06-03, its Monday, its Sunday, and the Monday after\<close>
  "example_rows =
     [example_row ''2024-06-02'' (PyInt 7), example_row ''2024-06-03'' (PyInt 100),
      example_row ''09/06/2024'' (PyStr ''200''), example_row ''2024-06-10'' (PyInt 9)]"

section \<open>Properties of the Week Range Calculator\<close>

lemma weekday_range: "0 \<le> weekday D \<and> weekday D \<le> 6"
  by (simp add: weekday_def)

lemma weekday_monday_of: "weekday (D - weekday D) = 0"
  by (simp add: weekday_def) presburger

lemma monday_of_pos: "1 \<le> D \<Longrightarrow> 1 \<le> D - weekday D"
  by (simp add: weekday_def) presburger

lemma weekday_MAXORDINAL: "weekday MAXORDINAL = 4"
  by (simp add: weekday_def MAXORDINAL_def)

lemma get_week_range_Inr:
  assumes "1 \<le> D" and "D - weekday D + 6 \<le> MAXORDINAL"
  shows "get_week_range D = Inr (D - weekday D, D - weekday D + 6)"
proof -
  have "1 \<le> D - weekday D" using assms(1) by (rule monday_of_pos)
  moreover have "D - weekday D \<le> MAXORDINAL" using assms(2) by simp
  ultimately show ?thesis
    using assms(2) by (simp add: get_week_range_def date_sub_def date_add_def Let_def)
qed

lemma get_week_range_InrD:
  assumes "get_week_range D = Inr (s, e)"
  shows "s = D - weekday D \<and> e = s + 6 \<and> 1 \<le> s \<and> e \<le> MAXORDINAL"
  using assms
  by (auto simp add: get_week_range_def date_sub_def date_add_def Let_def
      split: sum.splits if_splits)

lemma same_week_monday:
  assumes "D - weekday D \<le> D'" and "D' \<le> D - weekday D + 6"
  shows "D' - weekday D' = D - weekday D"
  using assms by (simp add: weekday_def) presburger

lemma late_monday:
  assumes "D \<le> MAXORDINAL" and "MAXORDINAL - 5 < D"
  shows "MAXORDINAL < D - weekday D + 6"
  using assms by (simp add: weekday_def MAXORDINAL_def) presburger

lemma early_monday:
  assumes "D \<le> MAXORDINAL - 5"
  shows "D - weekday D + 6 \<le> MAXORDINAL"
  using assms by (simp add: weekday_def MAXORDINAL_def) presburger

text \<open>
  C3, as amended. For every valid date \<open>D\<close> up to 9999-12-26 (ordinal \<open>MAXORDINAL - 5\<close>)
  the Week Range Calculator returns a pair \<open>(start, end)\<close> of valid dates with \<open>start\<close> a
  Monday, \<open>end = start + 6\<close> days and \<open>start \<le> D \<le> end\<close>. For the five valid dates after
  it, 9999-12-27 to 9999-12-31, the Sunday of the week is not a date and the function raises
  OverflowError. The function is a pure function of its argument.
\<close>

theorem get_week_range_spec:
  assumes "valid_date D"
  shows "if D \<le> MAXORDINAL - 5
         then (\<exists>start end'. get_week_range D = Inr (start, end') \<and> weekday start = 0
                 \<and> end' = start + 6 \<and> start \<le> D \<and> D \<le> end'
                 \<and> valid_date start \<and> valid_date end')
         else get_week_range D = Inl OverflowError"
proof (cases "D \<le> MAXORDINAL - 5")
  case True
  let ?s = "D - weekday D"
  have pos: "1 \<le> D" using assms by (simp add: valid_date_def)
  have top: "?s + 6 \<le> MAXORDINAL" using True by (rule early_monday)
  have r: "get_week_range D = Inr (?s, ?s + 6)" using pos top by (rule get_week_range_Inr)
  have mon: "weekday ?s = 0" by (rule weekday_monday_of)
  have wd: "0 \<le> weekday D \<and> weekday D \<le> 6" by (rule weekday_range)
  have lo: "1 \<le> ?s" using pos by (rule monday_of_pos)
  have "valid_date ?s \<and> valid_date (?s + 6)"
    using lo top by (simp add: valid_date_def)
  with r mon wd True show ?thesis by simp
next
  case False
  have le: "D \<le> MAXORDINAL" using assms by (simp add: valid_date_def)
  have late: "MAXORDINAL - 5 < D" using False by simp
  have over: "MAXORDINAL < D - weekday D + 6" using le late by (rule late_monday)
  have lo: "1 \<le> D - weekday D" using assms by (simp add: valid_date_def monday_of_pos)
  have wd: "0 \<le> weekday D" using weekday_range [of D] by simp
  have "get_week_range D = Inl OverflowError"
    using over lo wd le
    by (simp add: get_week_range_def date_sub_def date_add_def Let_def)
  with False show ?thesis by simp
qed

theorem get_week_range_spec_witness:
  "date_new 2024 6 5 = Inr 739042 \<and> valid_date 739042 \<and> 739042 \<le> MAXORDINAL - 5
   \<and> get_week_range 739042 = Inr (739040, 739046) \<and> weekday 739040 = 0
   \<and> date_new 9999 12 29 = Inr 3652057 \<and> valid_date 3652057 \<and> \<not> 3652057 \<le> MAXORDINAL - 5
   \<and> get_week_range 3652057 = Inl OverflowError"
proof -
  have v1: "valid_date 739042" by (simp add: valid_date_def MAXORDINAL_def)
  have v2: "valid_date 3652057" by (simp add: valid_date_def MAXORDINAL_def)
  have d1: "date_new 2024 6 5 = Inr 739042"
    by (simp add: date_new_def days_in_month_def days_before_month_def days_before_year_def
        is_leap_def)
  have d2: "date_new 9999 12 29 = Inr 3652057"
    by (simp add: date_new_def days_in_month_def days_before_month_def days_before_year_def
        is_leap_def)
  have e1: "get_week_range 739042 = Inr (739040, 739046) \<and> weekday 739040 = 0"
    using get_week_range_spec [OF v1]
    by (auto simp add: MAXORDINAL_def weekday_def get_week_range_def date_sub_def date_add_def)
  have e2: "get_week_range 3652057 = Inl OverflowError"
    using get_week_range_spec [OF v2] by (simp add: MAXORDINAL_def)
  show ?thesis using v1 v2 d1 d2 e1 e2 by (simp add: MAXORDINAL_def)
qed

text \<open>
  C3, as stated, fails: 9999-12-31 is a valid date, a Friday, and the Sunday of its week
  would be 10000-01-02, so the function raises OverflowError and returns no pair.
\<close>

theorem get_week_range_total_counterexample:
  "date_new 9999 12 31 = Inr 3652059 \<and> valid_date 3652059 \<and> weekday 3652059 = 4
   \<and> date_sub 3652059 (weekday 3652059) = Inr 3652055
   \<and> date_add 3652055 6 = Inl OverflowError
   \<and> get_week_range 3652059 = Inl OverflowError"
  by (simp add: date_new_def days_in_month_def days_before_month_def days_before_year_def
      is_leap_def valid_date_def MAXORDINAL_def weekday_def get_week_range_def date_sub_def
      date_add_def)

text \<open>
  C9. The Week Range Calculator is constant on its own span: when it returns \<open>(start, end)\<close>
  for a date \<open>D\<close>, it returns the same pair for every date \<open>D'\<close> with
  \<open>start \<le> D' \<le> end\<close>, and in particular for \<open>start\<close> itself.
\<close>

theorem get_week_range_constant:
  assumes "get_week_range D = Inr (start, end')" and "start \<le> D'" and "D' \<le> end'"
  shows "get_week_range D' = Inr (start, end') \<and> get_week_range start = Inr (start, end')"
proof -
  from assms(1) have s: "start = D - weekday D" and e: "end' = start + 6"
    and lo: "1 \<le> start" and hi: "end' \<le> MAXORDINAL"
    using get_week_range_InrD [of D start end'] by simp_all
  have in_week: "get_week_range X = Inr (start, end')"
    if "start \<le> X" and "X \<le> end'" for X
  proof -
    have m: "X - weekday X = start"
      using that s e same_week_monday [of D X] by simp
    have "1 \<le> X" using lo that(1) by simp
    moreover have "X - weekday X + 6 \<le> MAXORDINAL" using m e hi by simp
    ultimately have "get_week_range X = Inr (X - weekday X, X - weekday X + 6)"
      by (rule get_week_range_Inr)
    then show ?thesis using m e by simp
  qed
  have "get_week_range D' = Inr (start, end')" using assms(2,3) by (rule in_week)
  moreover have "get_week_range start = Inr (start, end')" using e by (simp add: in_week)
  ultimately show ?thesis by simp
qed

theorem get_week_range_constant_witness:
  "get_week_range 739042 = Inr (739040, 739046) \<and> (739040::int) \<le> 739046
   \<and> (739046::int) \<le> 739046 \<and> get_week_range 739046 = Inr (739040, 739046)
   \<and> get_week_range 739040 = Inr (739040, 739046)"
proof -
  have r: "get_week_range 739042 = Inr (739040, 739046)"
    by (simp add: get_week_range_def date_sub_def date_add_def weekday_def MAXORDINAL_def)
  have a: "(739040::int) \<le> 739046" and b: "(739046::int) \<le> 739046" by simp_all
  show ?thesis using get_week_range_constant [OF r a b] r by simp
qed

section \<open>Properties of the Summary Aggregator\<close>

lemma sum_rows_append:
  "sum_rows F l ws we (xs @ ys) st = sum_rows F l ws we ys (sum_rows F l ws we xs st)"
proof (induction xs arbitrary: st)
  case Nil
  show ?case by simp
next
  case (Cons row xs)
  obtain t lg where st: "st = (t, lg)" by (cases st)
  show ?case unfolding st by (simp add: Cons.IH split: sum.split option.split)
qed

lemma row_amount_Some:
  "row_amount F ws we row = Inr (Some x) \<longleftrightarrow> in_span ws we row \<and> parsed_amount F row = Some x"
  by (auto simp add: row_amount_def in_span_def parsed_date_def parsed_amount_def dict_get_def
      split: option.splits sum.splits if_splits)

lemma span_amounts_Nil: "span_amounts F ws we [] = []"
  by (simp add: span_amounts_def)

lemma row_amount_not_Some:
  assumes "\<And>x. row_amount F ws we row \<noteq> Inr (Some x)"
  shows "span_amounts F ws we (row # rows) = span_amounts F ws we rows"
proof (cases "in_span ws we row")
  case False
  then show ?thesis by (simp add: span_amounts_def)
next
  case True
  have "parsed_amount F row = None"
  proof (cases "parsed_amount F row")
    case None
    then show ?thesis .
  next
    case (Some x)
    with True have "row_amount F ws we row = Inr (Some x)" by (simp add: row_amount_Some)
    with assms [of x] show ?thesis by blast
  qed
  with True show ?thesis by (simp add: span_amounts_def)
qed

lemma span_amounts_Cons:
  "span_amounts F ws we (row # rows) =
     (case row_amount F ws we row of Inr (Some x) \<Rightarrow> x # span_amounts F ws we rows
      | Inr None \<Rightarrow> span_amounts F ws we rows
      | Inl e \<Rightarrow> span_amounts F ws we rows)"
proof (cases "row_amount F ws we row")
  case (Inl e)
  then show ?thesis by (simp add: row_amount_not_Some)
next
  case (Inr r)
  show ?thesis
  proof (cases r)
    case None
    with Inr show ?thesis by (simp add: row_amount_not_Some)
  next
    case (Some x)
    then have "in_span ws we row \<and> parsed_amount F row = Some x"
      using Inr row_amount_Some [of F ws we row x] by simp
    then show ?thesis using Inr Some by (simp add: span_amounts_def)
  qed
qed

lemma sum_rows_fold:
  "fst (sum_rows F l ws we rows (t, lg)) = foldl (+) t (span_amounts F ws we rows)"
proof (induction rows arbitrary: t lg)
  case Nil
  show ?case by (simp add: span_amounts_Nil)
next
  case (Cons row rows)
  show ?case
    by (simp add: span_amounts_Cons Cons.IH split: sum.split option.split)
qed

lemma span_amounts_append:
  "span_amounts F ws we (xs @ ys) = span_amounts F ws we xs @ span_amounts F ws we ys"
  by (induction xs) (simp_all add: span_amounts_def split: option.split)

lemma span_amounts_malformed:
  "malformed F row \<Longrightarrow> span_amounts F ws we (row # rows) = span_amounts F ws we rows"
  by (auto simp add: malformed_def span_amounts_def in_span_def)

lemma span_amounts_inside:
  assumes "parsed_date row = Some d" and "start \<le> d" and "d \<le> end'"
    and "parsed_amount F row = Some x"
  shows "span_amounts F start end' (rows @ [row]) = span_amounts F start end' rows @ [x]"
  using assms by (simp add: span_amounts_append) (simp add: span_amounts_def in_span_def)

lemma span_amounts_outside:
  assumes "parsed_date row = Some d" and "\<not> (start \<le> d \<and> d \<le> end')"
  shows "span_amounts F start end' (rows1 @ row # rows2) = span_amounts F start end' (rows1 @ rows2)"
  using assms by (simp add: span_amounts_append) (auto simp add: span_amounts_def in_span_def)

lemma total_earnings_fold:
  "total_earnings_of (calculate_summary F ws we ea ex) = foldl (+) 0 (span_amounts F ws we ea)"
proof -
  obtain t1 l1 where a: "sum_rows F ''earnings'' ws we ea (0, []) = (t1, l1)"
    by (cases "sum_rows F ''earnings'' ws we ea (0, [])")
  obtain t2 l2 where b: "sum_rows F ''expenses'' ws we ex (0, l1) = (t2, l2)"
    by (cases "sum_rows F ''expenses'' ws we ex (0, l1)")
  have "t1 = foldl (+) 0 (span_amounts F ws we ea)"
    using sum_rows_fold [of F "''earnings''" ws we ea 0 "[]"] a by simp
  then show ?thesis
    by (simp add: calculate_summary_def total_earnings_of_def a b Let_def)
qed

lemma total_expenses_fold:
  "total_expenses_of (calculate_summary F ws we ea ex) = foldl (+) 0 (span_amounts F ws we ex)"
proof -
  obtain t1 l1 where a: "sum_rows F ''earnings'' ws we ea (0, []) = (t1, l1)"
    by (cases "sum_rows F ''earnings'' ws we ea (0, [])")
  obtain t2 l2 where b: "sum_rows F ''expenses'' ws we ex (0, l1) = (t2, l2)"
    by (cases "sum_rows F ''expenses'' ws we ex (0, l1)")
  have "t2 = foldl (+) 0 (span_amounts F ws we ex)"
    using sum_rows_fold [of F "''expenses''" ws we ex 0 l1] b by simp
  then show ?thesis
    by (simp add: calculate_summary_def total_expenses_of_def a b Let_def)
qed

lemma balance_eq:
  "balance_of (calculate_summary F ws we ea ex) =
     total_earnings_of (calculate_summary F ws we ea ex) - total_expenses_of (calculate_summary F ws we ea ex)"
  by (simp add: calculate_summary_def balance_of_def total_earnings_of_def total_expenses_of_def
      Let_def split: prod.split)

text \<open>Facts for evaluating the functions on examples.\<close>

lemmas date_defs = date_new_def days_in_month_def days_before_month_def days_before_year_def
  is_leap_def

lemmas parse_defs = safe_parse_date_def strptime_date_def directive_def digit_def nonzero_def
  group_int_def py_int_def

lemmas row_defs = parsed_date_def parsed_amount_def py_float_def whole_amounts_def example_row_def

text \<open>
  C1. For every week span and every pair of row-sets, each total of the Summary Aggregator
  is the running sum, in row order and from zero, of the amounts of exactly the rows of its
  set whose parsed date lies inside the span, both ends included. So a row whose parsed date
  \<open>d\<close> satisfies \<open>start \<le> d \<le> end\<close> adds its amount to the total of its set, and a
  row whose parsed date lies outside the span adds nothing, wherever it stands.
\<close>

theorem calculate_summary_span:
  "total_earnings_of (calculate_summary F start end' earnings_data expenses_data)
     = foldl (+) 0 (span_amounts F start end' earnings_data)
   \<and> total_expenses_of (calculate_summary F start end' earnings_data expenses_data)
     = foldl (+) 0 (span_amounts F start end' expenses_data)
   \<and> (parsed_date row = Some d \<and> start \<le> d \<and> d \<le> end' \<and> parsed_amount F row = Some x \<longrightarrow>
        total_earnings_of (calculate_summary F start end' (rows @ [row]) expenses_data)
          = total_earnings_of (calculate_summary F start end' rows expenses_data) + x
        \<and> total_expenses_of (calculate_summary F start end' earnings_data (rows @ [row]))
          = total_expenses_of (calculate_summary F start end' earnings_data rows) + x)
   \<and> (parsed_date row = Some d \<and> \<not> (start \<le> d \<and> d \<le> end') \<longrightarrow>
        total_earnings_of (calculate_summary F start end' (before @ row # after) expenses_data)
          = total_earnings_of (calculate_summary F start end' (before @ after) expenses_data)
        \<and> total_expenses_of (calculate_summary F start end' earnings_data (before @ row # after))
          = total_expenses_of (calculate_summary F start end' earnings_data (before @ after)))"
proof -
  have inside: "foldl (+) 0 (span_amounts F start end' (rows @ [row]))
                  = foldl (+) 0 (span_amounts F start end' rows) + x"
    if "parsed_date row = Some d" "start \<le> d" "d \<le> end'" "parsed_amount F row = Some x"
    using that by (simp add: span_amounts_inside)
  have outside: "span_amounts F start end' (before @ row # after)
                   = span_amounts F start end' (before @ after)"
    if "parsed_date row = Some d" "\<not> (start \<le> d \<and> d \<le> end')"
    using that by (rule span_amounts_outside)
  show ?thesis
    using inside outside by (simp add: total_earnings_fold total_expenses_fold)
qed

theorem calculate_summary_span_witness:
  "date_new 2024 6 3 = Inr 739040 \<and> date_new 2024 6 9 = Inr 739046
   \<and> span_amounts whole_amounts 739040 739046 example_rows = [100, 200]
   \<and> total_earnings_of (calculate_summary whole_amounts 739040 739046 example_rows []) = 300
   \<and> parsed_date (example_row ''2024-06-09'' (PyInt 200)) = Some 739046
   \<and> parsed_amount whole_amounts (example_row ''2024-06-09'' (PyInt 200)) = Some 200
   \<and> total_earnings_of (calculate_summary whole_amounts 739040 739046
        ([example_row ''2024-06-03'' (PyInt 100)] @ [example_row ''2024-06-09'' (PyInt 200)]) [])
       = total_earnings_of (calculate_summary whole_amounts 739040 739046
           [example_row ''2024-06-03'' (PyInt 100)] []) + 200
   \<and> parsed_date (example_row ''2024-06-10'' (PyInt 9)) = Some 739047
   \<and> total_expenses_of (calculate_summary whole_amounts 739040 739046 []
        ([example_row ''2024-06-03'' (PyInt 100)] @ example_row ''2024-06-10'' (PyInt 9) # []))
       = total_expenses_of (calculate_summary whole_amounts 739040 739046 []
           ([example_row ''2024-06-03'' (PyInt 100)] @ []))"
proof -
  have d: "date_new 2024 6 3 = Inr 739040 \<and> date_new 2024 6 9 = Inr 739046"
    by (simp add: date_defs)
  have a: "span_amounts whole_amounts 739040 739046 example_rows = [100, 200]"
    by (simp add: span_amounts_def in_span_def example_rows_def row_defs parse_defs date_defs)
  have p1: "parsed_date (example_row ''2024-06-09'' (PyInt 200)) = Some 739046"
    and p2: "parsed_amount whole_amounts (example_row ''2024-06-09'' (PyInt 200)) = Some 200"
    and p3: "parsed_date (example_row ''2024-06-10'' (PyInt 9)) = Some 739047"
    by (simp_all add: row_defs parse_defs date_defs)
  note s = calculate_summary_span [where F = whole_amounts and start = 739040
      and end' = 739046 and earnings_data = example_rows and expenses_data = "[]"
      and row = "example_row ''2024-06-09'' (PyInt 200)" and d = 739046 and x = 200
      and rows = "[example_row ''2024-06-03'' (PyInt 100)]"]
  note t = calculate_summary_span [where F = whole_amounts and start = 739040
      and end' = 739046 and earnings_data = "[]" and expenses_data = "[]"
      and row = "example_row ''2024-06-10'' (PyInt 9)" and d = 739047
      and before = "[example_row ''2024-06-03'' (PyInt 100)]" and after = "[]"]
  have e: "total_earnings_of (calculate_summary whole_amounts 739040 739046 example_rows []) = 300"
    using s a by simp
  have i: "total_earnings_of (calculate_summary whole_amounts 739040 739046
        ([example_row ''2024-06-03'' (PyInt 100)] @ [example_row ''2024-06-09'' (PyInt 200)]) [])
       = total_earnings_of (calculate_summary whole_amounts 739040 739046
           [example_row ''2024-06-03'' (PyInt 100)] []) + 200"
    using s p1 p2 by simp
  have o: "total_expenses_of (calculate_summary whole_amounts 739040 739046 []
        ([example_row ''2024-06-03'' (PyInt 100)] @ example_row ''2024-06-10'' (PyInt 9) # []))
       = total_expenses_of (calculate_summary whole_amounts 739040 739046 []
           ([example_row ''2024-06-03'' (PyInt 100)] @ []))"
    using t p3 by simp
  show ?thesis using d a p1 p2 p3 e i o by simp
qed

text \<open>
  C2. A malformed row, one whose date fails to parse or whose amount is not a valid number,
  is skipped: wherever it stands among the other rows of a row-set, the total of the set is
  the total computed without it. The aggregation returns its totals whatever the rows are.
\<close>

theorem calculate_summary_skips_malformed:
  assumes "malformed F row"
  shows "total_earnings_of (calculate_summary F start end' (rows1 @ row # rows2) expenses_data)
           = total_earnings_of (calculate_summary F start end' (rows1 @ rows2) expenses_data)
         \<and> total_expenses_of (calculate_summary F start end' earnings_data (rows1 @ row # rows2))
           = total_expenses_of (calculate_summary F start end' earnings_data (rows1 @ rows2))"
proof -
  have "span_amounts F start end' (rows1 @ row # rows2) = span_amounts F start end' (rows1 @ rows2)"
    using assms by (simp add: span_amounts_append span_amounts_malformed)
  then show ?thesis by (simp add: total_earnings_fold total_expenses_fold)
qed

theorem calculate_summary_skips_malformed_witness:
  "malformed whole_amounts (example_row ''2024-13-45'' (PyInt 10))
   \<and> total_earnings_of (calculate_summary whole_amounts 739040 739046
        ([example_row ''2024-06-03'' (PyInt 100)] @ example_row ''2024-13-45'' (PyInt 10)
          # [example_row ''2024-06-09'' (PyInt 200)]) []) = 300
   \<and> total_earnings_of (calculate_summary whole_amounts 739040 739046
        ([example_row ''2024-06-03'' (PyInt 100)] @ [example_row ''2024-06-09'' (PyInt 200)]) [])
       = 300
   \<and> malformed whole_amounts (example_row ''2024-06-05'' (PyStr ''abc''))
   \<and> total_expenses_of (calculate_summary whole_amounts 739040 739046 []
        ([] @ example_row ''2024-06-05'' (PyStr ''abc'') # [example_row ''2024-06-04'' (PyInt 50)]))
       = 50"
proof -
  have m1: "malformed whole_amounts (example_row ''2024-13-45'' (PyInt 10))"
    by (simp add: malformed_def row_defs parse_defs date_defs)
  have m2: "malformed whole_amounts (example_row ''2024-06-05'' (PyStr ''abc''))"
    by (simp add: malformed_def row_defs parse_defs date_defs)
  have t1: "total_earnings_of (calculate_summary whole_amounts 739040 739046
        ([example_row ''2024-06-03'' (PyInt 100)] @ [example_row ''2024-06-09'' (PyInt 200)]) [])
       = 300"
    by (simp add: calculate_summary_def total_earnings_of_def row_amount_def dict_get_def
        row_defs parse_defs date_defs)
  have t2: "total_expenses_of (calculate_summary whole_amounts 739040 739046 []
        ([] @ [example_row ''2024-06-04'' (PyInt 50)])) = 50"
    by (simp add: calculate_summary_def total_expenses_of_def row_amount_def dict_get_def
        row_defs parse_defs date_defs)
  note s1 = calculate_summary_skips_malformed [OF m1, of 739040 739046
      "[example_row ''2024-06-03'' (PyInt 100)]" "[example_row ''2024-06-09'' (PyInt 200)]" "[]"
      "[]", THEN conjunct1]
  note s2 = calculate_summary_skips_malformed [OF m2, of 739040 739046 "[]"
      "[example_row ''2024-06-04'' (PyInt 50)]" "[]" "[]", THEN conjunct2]
  show ?thesis using m1 m2 t1 t2 s1 s2 by simp
qed

text \<open>
  C5. The balance of every summary is the total of the earnings minus the total of the
  expenses of the same summary, with the subtraction of the numeric type and no other step.
\<close>

theorem calculate_summary_balance:
  "balance_of (calculate_summary F start end' earnings_data expenses_data)
     = total_earnings_of (calculate_summary F start end' earnings_data expenses_data)
       - total_expenses_of (calculate_summary F start end' earnings_data expenses_data)"
  by (rule balance_eq)

text \<open>
  C10. The two totals do not interfere: the total of the earnings is the same whatever the
  expense rows are, and the total of the expenses is the same whatever the earning rows are.
\<close>

theorem calculate_summary_independent:
  "total_earnings_of (calculate_summary F start end' earnings_data expenses_data)
     = total_earnings_of (calculate_summary F start end' earnings_data expenses_data')
   \<and> total_expenses_of (calculate_summary F start end' earnings_data expenses_data)
     = total_expenses_of (calculate_summary F start end' earnings_data' expenses_data)"
  by (simp add: total_earnings_fold total_expenses_fold)

section \<open>Properties of the Date Parser\<close>

text \<open>
  C4. The Date Parser tries the formats in the fixed order ISO, day-first slash, month-first
  slash and returns the date of the first format that parses; when none parses it raises
  ValueError, the same exception for every such input.
\<close>

theorem safe_parse_date_order:
  "(strptime_date date_str ''%Y-%m-%d'' = Inr d \<longrightarrow> safe_parse_date date_str = Inr d)
   \<and> (isl (strptime_date date_str ''%Y-%m-%d'') \<and> strptime_date date_str ''%d/%m/%Y'' = Inr d
        \<longrightarrow> safe_parse_date date_str = Inr d)
   \<and> (isl (strptime_date date_str ''%Y-%m-%d'') \<and> isl (strptime_date date_str ''%d/%m/%Y'')
        \<and> strptime_date date_str ''%m/%d/%Y'' = Inr d
        \<longrightarrow> safe_parse_date date_str = Inr d)
   \<and> (isl (strptime_date date_str ''%Y-%m-%d'') \<and> isl (strptime_date date_str ''%d/%m/%Y'')
        \<and> isl (strptime_date date_str ''%m/%d/%Y'')
        \<longrightarrow> safe_parse_date date_str = Inl ValueError)"
  by (auto simp add: safe_parse_date_def isl_def)

lemmas strptime_defs = strptime_date_def directive_def digit_def nonzero_def group_int_def
  py_int_def

theorem safe_parse_date_order_witness:
  "strptime_date (PyStr ''2024-06-03'') ''%Y-%m-%d'' = date_new 2024 6 3
   \<and> safe_parse_date (PyStr ''2024-06-03'') = Inr 739040
   \<and> isl (strptime_date (PyStr ''03/04/2024'') ''%Y-%m-%d'')
   \<and> strptime_date (PyStr ''03/04/2024'') ''%d/%m/%Y'' = date_new 2024 4 3
   \<and> strptime_date (PyStr ''03/04/2024'') ''%m/%d/%Y'' = date_new 2024 3 4
   \<and> date_new 2024 4 3 = Inr 738979 \<and> date_new 2024 3 4 = Inr 738949
   \<and> safe_parse_date (PyStr ''03/04/2024'') = Inr 738979
   \<and> isl (strptime_date (PyStr ''12/25/2024'') ''%Y-%m-%d'')
   \<and> isl (strptime_date (PyStr ''12/25/2024'') ''%d/%m/%Y'')
   \<and> strptime_date (PyStr ''12/25/2024'') ''%m/%d/%Y'' = date_new 2024 12 25
   \<and> safe_parse_date (PyStr ''12/25/2024'') = Inr 739245
   \<and> isl (strptime_date (PyStr ''2024-13-45'') ''%Y-%m-%d'')
   \<and> isl (strptime_date (PyStr ''2024-13-45'') ''%d/%m/%Y'')
   \<and> isl (strptime_date (PyStr ''2024-13-45'') ''%m/%d/%Y'')
   \<and> safe_parse_date (PyStr ''2024-13-45'') = Inl ValueError"
proof -
  have a1: "strptime_date (PyStr ''2024-06-03'') ''%Y-%m-%d'' = Inr 739040"
    and a2: "date_new 2024 6 3 = Inr 739040"
    by (simp_all add: strptime_defs date_defs)
  have b1: "isl (strptime_date (PyStr ''03/04/2024'') ''%Y-%m-%d'')"
    and b2: "strptime_date (PyStr ''03/04/2024'') ''%d/%m/%Y'' = Inr 738979"
    and b3: "strptime_date (PyStr ''03/04/2024'') ''%m/%d/%Y'' = Inr 738949"
    and b4: "date_new 2024 4 3 = Inr 738979" and b5: "date_new 2024 3 4 = Inr 738949"
    by (simp_all add: strptime_defs date_defs)
  have c1: "isl (strptime_date (PyStr ''12/25/2024'') ''%Y-%m-%d'')"
    and c2: "isl (strptime_date (PyStr ''12/25/2024'') ''%d/%m/%Y'')"
    and c3: "strptime_date (PyStr ''12/25/2024'') ''%m/%d/%Y'' = Inr 739245"
    and c4: "date_new 2024 12 25 = Inr 739245"
    by (simp_all add: strptime_defs date_defs)
  have d1: "isl (strptime_date (PyStr ''2024-13-45'') ''%Y-%m-%d'')"
    and d2: "isl (strptime_date (PyStr ''2024-13-45'') ''%d/%m/%Y'')"
    and d3: "isl (strptime_date (PyStr ''2024-13-45'') ''%m/%d/%Y'')"
    by (simp_all add: strptime_defs date_defs)
  have a: "safe_parse_date (PyStr ''2024-06-03'') = Inr 739040"
    using safe_parse_date_order [of "PyStr ''2024-06-03''" 739040] a1 by blast
  have b: "safe_parse_date (PyStr ''03/04/2024'') = Inr 738979"
    using safe_parse_date_order [of "PyStr ''03/04/2024''" 738979] b1 b2 by blast
  have c: "safe_parse_date (PyStr ''12/25/2024'') = Inr 739245"
    using safe_parse_date_order [of "PyStr ''12/25/2024''" 739245] c1 c2 c3 by blast
  have d: "safe_parse_date (PyStr ''2024-13-45'') = Inl ValueError"
    using safe_parse_date_order [of "PyStr ''2024-13-45''"] d1 d2 d3 by blast
  show ?thesis
    using a b c d a1 a2 b1 b2 b3 b4 b5 c1 c2 c3 c4 d1 d2 d3 by simp
qed

section \<open>Properties of the Scheduled Job, the /spend handler and the configuration\<close>

lemma job_range:
  assumes "weekday T = 0" and "today = T \<or> today = T - 1"
    and "valid_date T" and "valid_date (T - 1 - 6)"
  shows "date_sub today 1 = Inr (today - 1) \<and> get_week_range (today - 1) = Inr (T - 1 - 6, T - 1)"
proof -
  have T: "8 \<le> T" "T \<le> MAXORDINAL"
    using assms(3,4) by (simp_all add: valid_date_def)
  have t: "2 \<le> today" "today \<le> MAXORDINAL" using assms(2) T by auto
  have sub: "date_sub today 1 = Inr (today - 1)"
    using t by (simp add: date_sub_def date_add_def)
  have mon: "today - 1 - weekday (today - 1) = T - 1 - 6"
    using assms(1,2) by (auto simp add: weekday_def) presburger+
  have "1 \<le> today - 1" using t by simp
  moreover have "today - 1 - weekday (today - 1) + 6 \<le> MAXORDINAL"
    using mon T by simp
  ultimately have "get_week_range (today - 1)
      = Inr (today - 1 - weekday (today - 1), today - 1 - weekday (today - 1) + 6)"
    by (rule get_week_range_Inr)
  then have "get_week_range (today - 1) = Inr (T - 1 - 6, T - 1)"
    using mon by simp
  with sub show ?thesis by simp
qed

text \<open>
  C6. The job fires on a Monday \<open>T\<close>. The date its clock gives is \<open>T\<close> or, where the
  clock of the host runs in a time zone behind the one of the trigger, the day before. In
  both cases the job aggregates over the week that has just ended, the span whose end is
  \<open>T - 1\<close> and whose start is six days earlier, and sends one message, to the recipient
  \<open>CHAT_ID\<close>, with the totals of the Summary Aggregator for that span.
\<close>

theorem send_weekly_summary_span:
  assumes "weekday T = 0" and "today = T \<or> today = T - 1"
    and "valid_date T" and "valid_date (T - 1 - 6)"
  shows "send_weekly_summary F recipient today earnings_data expenses_data =
           ([\<lparr>chat_id = recipient, week_start = T - 1 - 6, week_end = T - 1,
              earnings = total_earnings_of
                (calculate_summary F (T - 1 - 6) (T - 1) earnings_data expenses_data),
              expenses = total_expenses_of
                (calculate_summary F (T - 1 - 6) (T - 1) earnings_data expenses_data),
              balance = balance_of
                (calculate_summary F (T - 1 - 6) (T - 1) earnings_data expenses_data)\<rparr>],
            snd (calculate_summary F (T - 1 - 6) (T - 1) earnings_data expenses_data))"
  using job_range [OF assms]
  by (simp add: send_weekly_summary_def total_earnings_of_def total_expenses_of_def
      balance_of_def split: prod.split)

theorem send_weekly_summary_span_witness:
  "date_new 2024 6 10 = Inr 739047 \<and> weekday 739047 = 0 \<and> valid_date 739047
   \<and> valid_date (739047 - 1 - 6)
   \<and> fst (send_weekly_summary whole_amounts (Some ''42'') 739047 example_rows example_rows) =
       [\<lparr>chat_id = Some ''42'', week_start = 739040, week_end = 739046, earnings = 300,
         expenses = 300, balance = 0\<rparr>]
   \<and> fst (send_weekly_summary whole_amounts (Some ''42'') (739047 - 1) example_rows example_rows) =
       [\<lparr>chat_id = Some ''42'', week_start = 739040, week_end = 739046, earnings = 300,
         expenses = 300, balance = 0\<rparr>]"
proof -
  have d: "date_new 2024 6 10 = Inr 739047" by (simp add: date_defs)
  have h1: "weekday 739047 = 0" by (simp add: weekday_def)
  have h2: "(739047::int) = 739047 \<or> (739047::int) = 739047 - 1" by simp
  have h2': "(739047::int) - 1 = 739047 \<or> (739047::int) - 1 = 739047 - 1" by simp
  have h3: "valid_date 739047" by (simp add: valid_date_def MAXORDINAL_def)
  have h4: "valid_date (739047 - 1 - 6)" by (simp add: valid_date_def MAXORDINAL_def)
  have t: "calculate_summary whole_amounts 739040 739046 example_rows example_rows
             = ((300, 300, 0), [])"
    by (simp add: calculate_summary_def row_amount_def dict_get_def example_rows_def
        row_defs parse_defs date_defs)
  show ?thesis
    using send_weekly_summary_span [OF h1 h2 h3 h4, of whole_amounts "Some ''42''" example_rows
        example_rows]
      send_weekly_summary_span [OF h1 h2' h3 h4, of whole_amounts "Some ''42''" example_rows
        example_rows] d h1 h3 h4 t
    by (simp add: total_earnings_of_def total_expenses_of_def balance_of_def)
qed

text \<open>
  C7. When \<^verbatim>\<open>/spend\<close> is invoked with fewer than two arguments, or with a first argument
  that is not a number, the handler replies with the usage message and the expense sheet is
  left as it was.
\<close>

theorem spend_malformed:
  assumes "length args < 2 \<or> float_of_str F (args ! 0) = None"
  shows "expenses_sheet (spend F args date day sheet) = sheet
         \<and> reply_text (spend F args date day sheet) = SpendUsage"
  using assms
  by (auto simp add: spend_def spend_try_def list_get_def py_float_def Let_def
      split: sum.splits option.splits)

theorem spend_malformed_witness:
  "length [''50''] < 2
   \<and> expenses_sheet (spend whole_amounts [''50''] ''2024-06-03'' ''Monday'' []) = []
   \<and> reply_text (spend whole_amounts [''50''] ''2024-06-03'' ''Monday'' []) = SpendUsage
   \<and> float_of_str whole_amounts ([''abc'', ''food''] ! 0) = None
   \<and> expenses_sheet (spend whole_amounts [''abc'', ''food''] ''2024-06-03'' ''Monday'' []) = []"
proof -
  have h1: "length [''50''] < 2 \<or> float_of_str whole_amounts ([''50''] ! 0) = None" by simp
  have h2: "float_of_str whole_amounts ([''abc'', ''food''] ! 0) = None"
    by (simp add: whole_amounts_def)
  then have h2': "length [''abc'', ''food''] < 2 \<or> float_of_str whole_amounts ([''abc'', ''food''] ! 0) = None"
    by simp
  show ?thesis
    using spend_malformed [OF h1, of "''2024-06-03''" "''Monday''" "[]"]
      spend_malformed [OF h2', of "''2024-06-03''" "''Monday''" "[]"] h2
    by simp
qed

lemma spend_well_formed:
  assumes "list_get args 0 = Inr a" and "float_of_str F a = Some amount"
    and "list_get args 1 = Inr category"
  shows "expenses_sheet (spend F args date day sheet) =
           sheet @ [[PyStr date, PyStr day, PyStr category, PyFloat amount,
                     PyStr (if length args > 2 then join '' '' (drop 2 args) else [])]]"
  using assms by (simp add: spend_def spend_try_def py_float_def Let_def)

lemma load_config_required:
  assumes "getenv ''TELEGRAM_TOKEN'' = None \<or> getenv ''SHEET_ID'' = None
           \<or> getenv ''GOOGLE_CREDENTIALS'' = None"
  shows "load_config getenv = Inl ValueError"
  using assms by (auto simp add: load_config_def py_not_def Let_def)

lemma startup_required:
  assumes "getenv ''TELEGRAM_TOKEN'' = None \<or> getenv ''SHEET_ID'' = None
           \<or> getenv ''GOOGLE_CREDENTIALS'' = None
           \<or> authorize G (getenv ''GOOGLE_CREDENTIALS'') = None"
  shows "startup G getenv = Inl ValueError"
proof (cases "getenv ''TELEGRAM_TOKEN'' = None \<or> getenv ''SHEET_ID'' = None
    \<or> getenv ''GOOGLE_CREDENTIALS'' = None")
  case True
  then have "load_config getenv = Inl ValueError" by (rule load_config_required)
  then show ?thesis by (simp add: startup_def)
next
  case False
  with assms have "authorize G (getenv ''GOOGLE_CREDENTIALS'') = None" by blast
  then show ?thesis by (simp add: startup_def load_config_def Let_def)
qed

lemma startup_chat_id_unchecked:
  assumes "\<not> py_not (getenv ''TELEGRAM_TOKEN'')" and "\<not> py_not (getenv ''SHEET_ID'')"
    and "\<not> py_not (getenv ''GOOGLE_CREDENTIALS'')"
    and "authorize G (getenv ''GOOGLE_CREDENTIALS'') = Some client"
    and "worksheet G client (getenv ''SHEET_ID'') ''Expenses'' = Some expenses_ws"
    and "worksheet G client (getenv ''SHEET_ID'') ''Earnings'' = Some earnings_ws"
  shows "startup G getenv =
           Inr \<lparr>settings = \<lparr>TELEGRAM_TOKEN = getenv ''TELEGRAM_TOKEN'',
                              SHEET_ID = getenv ''SHEET_ID'',
                              GOOGLE_CREDENTIALS = getenv ''GOOGLE_CREDENTIALS'',
                              CHAT_ID = getenv ''CHAT_ID''\<rparr>,
                expenses_worksheet = expenses_ws, earnings_worksheet = earnings_ws\<rparr>"
  using assms by (simp add: startup_def load_config_def Let_def)

text \<open>
  C8. Startup checks three of the four required values. With the bot token, the store
  identifier and a store credential that the Google libraries accept all set, and the
  recipient \<open>CHAT_ID\<close> not set, no step of startup raises: it completes with
  \<open>CHAT_ID = None\<close>, the value the Scheduled Job then sends to.
\<close>

theorem startup_missing_chat_id:
  "startup example_google [''TELEGRAM_TOKEN'' \<mapsto> ''token'', ''SHEET_ID'' \<mapsto> ''sheet'',
                           ''GOOGLE_CREDENTIALS'' \<mapsto> example_key]
     = Inr \<lparr>settings = \<lparr>TELEGRAM_TOKEN = Some ''token'', SHEET_ID = Some ''sheet'',
                        GOOGLE_CREDENTIALS = Some example_key, CHAT_ID = None\<rparr>,
            expenses_worksheet = (''sheet'', ''Expenses''),
            earnings_worksheet = (''sheet'', ''Earnings'')\<rparr>
   \<and> startup example_google [''TELEGRAM_TOKEN'' \<mapsto> ''token'', ''SHEET_ID'' \<mapsto> ''sheet'',
                             ''CHAT_ID'' \<mapsto> ''42''] = Inl ValueError
   \<and> startup example_google [''TELEGRAM_TOKEN'' \<mapsto> ''token'', ''SHEET_ID'' \<mapsto> ''sheet'',
                             ''GOOGLE_CREDENTIALS'' \<mapsto> ''{}'', ''CHAT_ID'' \<mapsto> ''42'']
       = Inl ValueError"
  by (simp add: startup_def load_config_def py_not_def Let_def example_google_def example_key_def)

lemma calculate_summary_scenario:
  "calculate_summary whole_amounts 739040 739046
     [example_row ''2024-06-03'' (PyInt 100), example_row ''2024-06-09'' (PyInt 200)]
     [example_row ''2024-06-05'' (PyInt 50)] = ((300, 50, 250), [])"
  by (simp add: calculate_summary_def row_amount_def dict_get_def row_defs parse_defs date_defs)

section \<open>The totals on evaluated examples\<close>

theorem calculate_summary_balance_witness:
  "total_earnings_of (calculate_summary whole_amounts 739040 739046
      [example_row ''2024-06-03'' (PyInt 100), example_row ''2024-06-09'' (PyInt 200)]
      [example_row ''2024-06-05'' (PyInt 50)]) = 300
   \<and> total_expenses_of (calculate_summary whole_amounts 739040 739046
      [example_row ''2024-06-03'' (PyInt 100), example_row ''2024-06-09'' (PyInt 200)]
      [example_row ''2024-06-05'' (PyInt 50)]) = 50
   \<and> balance_of (calculate_summary whole_amounts 739040 739046
      [example_row ''2024-06-03'' (PyInt 100), example_row ''2024-06-09'' (PyInt 200)]
      [example_row ''2024-06-05'' (PyInt 50)]) = 250"
proof -
  let ?r = "calculate_summary whole_amounts 739040 739046
      [example_row ''2024-06-03'' (PyInt 100), example_row ''2024-06-09'' (PyInt 200)]
      [example_row ''2024-06-05'' (PyInt 50)]"
  have te: "total_earnings_of ?r = 300" and tx: "total_expenses_of ?r = 50"
    by (simp_all add: calculate_summary_scenario total_earnings_of_def total_expenses_of_def)
  have "balance_of ?r = total_earnings_of ?r - total_expenses_of ?r"
    by (rule calculate_summary_balance)
  then have "balance_of ?r = 250" by (simp add: te tx)
  with te tx show ?thesis by simp
qed

theorem calculate_summary_independent_witness:
  "total_earnings_of (calculate_summary whole_amounts 739040 739046
      [example_row ''2024-06-03'' (PyInt 100), example_row ''2024-06-09'' (PyInt 200)]
      [example_row ''2024-06-05'' (PyInt 50)]) = 300
   \<and> total_earnings_of (calculate_summary whole_amounts 739040 739046
      [example_row ''2024-06-03'' (PyInt 100), example_row ''2024-06-09'' (PyInt 200)]
      [example_row ''2024-13-45'' (PyStr ''abc''), example_row ''2024-06-04'' (PyInt 1)]) = 300
   \<and> total_expenses_of (calculate_summary whole_amounts 739040 739046
      [example_row ''2024-06-03'' (PyInt 100), example_row ''2024-06-09'' (PyInt 200)]
      [example_row ''2024-06-05'' (PyInt 50)]) = 50
   \<and> total_expenses_of (calculate_summary whole_amounts 739040 739046
      [example_row ''junk'' (PyInt 100)] [example_row ''2024-06-05'' (PyInt 50)]) = 50"
proof -
  let ?ea = "[example_row ''2024-06-03'' (PyInt 100), example_row ''2024-06-09'' (PyInt 200)]"
  let ?ex = "[example_row ''2024-06-05'' (PyInt 50)]"
  have te: "total_earnings_of (calculate_summary whole_amounts 739040 739046 ?ea ?ex) = 300"
    and tx: "total_expenses_of (calculate_summary whole_amounts 739040 739046 ?ea ?ex) = 50"
    by (simp_all add: calculate_summary_scenario total_earnings_of_def total_expenses_of_def)
  note i1 = calculate_summary_independent [of whole_amounts 739040 739046 ?ea ?ex
      "[example_row ''2024-13-45'' (PyStr ''abc''), example_row ''2024-06-04'' (PyInt 1)]",
      THEN conjunct1]
  note i2 = calculate_summary_independent [of whole_amounts 739040 739046 ?ea ?ex
      _ "[example_row ''junk'' (PyInt 100)]", THEN conjunct2]
  show ?thesis using te tx i1 i2 by simp
qed

end
